theory Spec2Isabelle
  imports Main
begin

section \<open>JavaScript values and built-ins used by the table codec\<close>

text \<open>
  The table keeps its state in the query string. The sources are TypeScript; the values
  that cross the codec are JavaScript values. A JavaScript number is modelled as an
  integer, an infinity or \<open>NaN\<close>: the numbers the codec produces come from
  \<open>parseInt\<close> and \<open>Number\<close> on digit strings, and rounding to a double (beyond
  \<open>2^53\<close>) is not modelled. A character is one code unit of the JavaScript string in the range
  U+0000..U+00FF.
\<close>

datatype jsnumber = Finite int | PosInfinity | NegInfinity | NaN

datatype jsval =
    JUndefined
  | JNull
  | JBool bool
  | JNum jsnumber
  | JStr string
  | JArr "jsval list"
  | JObj "(string \<times> jsval) list"

text \<open>What a \<open>throw\<close> carries: a validation error of the schema library, a
  \<open>SyntaxError\<close> of \<open>JSON.parse\<close>, or anything a caller-supplied codec throws.
  \<open>NotModelled\<close> marks an argument on which a built-in is not modelled.\<close>

datatype error = ValiError | SyntaxError | Thrown string | NotModelled

subsection \<open>String.prototype.split and Array.prototype.join\<close>

text \<open>\<open>s.split(sep)\<close> for a one-character separator: the empty string splits into
  one empty token.\<close>

fun split_on :: "char \<Rightarrow> string \<Rightarrow> string list" where
  "split_on sep [] = [[]]"
| "split_on sep (c # cs) =
     (if c = sep then [] # split_on sep cs
      else (case split_on sep cs of
              [] \<Rightarrow> [[c]]
            | t # ts \<Rightarrow> (c # t) # ts))"

fun join_with :: "string \<Rightarrow> string list \<Rightarrow> string" where
  "join_with sep [] = []"
| "join_with sep [x] = x"
| "join_with sep (x # y # ys) = x @ sep @ join_with sep (y # ys)"

subsection \<open>parseInt, Number and the two page patterns\<close>

definition isDigit :: "char \<Rightarrow> bool" where
  "isDigit c = (c \<in> set ''0123456789'')"

text \<open>The white space and line terminators that \<open>parseInt\<close> skips, as far as
  they lie in U+0000..U+00FF: TAB, LF, VT, FF, CR, SP and NBSP.\<close>

definition isWhiteSpace :: "char \<Rightarrow> bool" where
  "isWhiteSpace c = ((of_char c :: nat) \<in> {9, 10, 11, 12, 13, 32, 160})"

text \<open>The value of a character as a digit of radix \<open>r\<close>, if it is one.\<close>

definition digitValue :: "nat \<Rightarrow> char \<Rightarrow> nat option" where
  "digitValue r c =
     (let n = (of_char c :: nat);
          v = (if 48 \<le> n \<and> n \<le> 57 then Some (n - 48)
               else if 97 \<le> n \<and> n \<le> 122 then Some (n - 87)
               else if 65 \<le> n \<and> n \<le> 90 then Some (n - 55)
               else None)
      in case v of None \<Rightarrow> None | Some d \<Rightarrow> if d < r then Some d else None)"

definition digitsValue :: "nat \<Rightarrow> string \<Rightarrow> nat" where
  "digitsValue r z =
     foldl (\<lambda>acc c. acc * r + (case digitValue r c of None \<Rightarrow> 0 | Some d \<Rightarrow> d)) 0 z"

text \<open>
  \<open>parseInt(s)\<close> with no radix argument (ECMAScript, \<open>parseInt\<close>): skip leading white
  space, read an optional sign, take radix 16 after a \<open>0x\<close> or \<open>0X\<close> prefix and radix
  10 otherwise, read the longest prefix of digits of that radix, and return \<open>NaN\<close>
  when that prefix is empty. The model returns the exact integer. It is the result of
  the code for digits worth less than \<open>2^53\<close>; above, the code rounds to a double or
  returns \<open>Infinity\<close>, and the model does not say what it returns.
\<close>

definition parseInt :: "string \<Rightarrow> jsnumber" where
  "parseInt s =
     (let s0 = dropWhile isWhiteSpace s;
          sgn = (case s0 of [] \<Rightarrow> (1::int) | c # _ \<Rightarrow> if c = CHR ''-'' then - 1 else 1);
          s1 = (case s0 of [] \<Rightarrow> s0
                | c # cs \<Rightarrow> if c = CHR ''+'' \<or> c = CHR ''-'' then cs else s0);
          hex = (take 2 s1 = ''0x'' \<or> take 2 s1 = ''0X'');
          r = (if hex then 16 else 10);
          s2 = (if hex then drop 2 s1 else s1);
          z = takeWhile (\<lambda>c. digitValue r c \<noteq> None) s2
      in if z = [] then NaN else Finite (sgn * int (digitsValue r z)))"

text \<open>\<open>/[0-9]+/.test(s)\<close>: the pattern has no anchors, so it matches as soon as
  some character of \<open>s\<close> is a decimal digit.\<close>

definition test_digits :: "string \<Rightarrow> bool" where
  "test_digits s = list_ex isDigit s"

text \<open>\<open>/^[1-9][0-9]*$/.test(s)\<close>: the whole of \<open>s\<close> is a non-zero digit followed
  by digits.\<close>

definition test_positive_decimal :: "string \<Rightarrow> bool" where
  "test_positive_decimal s =
     (case s of [] \<Rightarrow> False
      | c # cs \<Rightarrow> isDigit c \<and> c \<noteq> CHR ''0'' \<and> list_all isDigit cs)"

text \<open>\<open>n.toString()\<close> of a number: decimal digits for an integer below \<open>2^53\<close>
  in absolute value, where every integer is a double and prints exactly; above,
  JavaScript prints the shortest digits of the double, which is not modelled.\<close>

fun decimal :: "nat \<Rightarrow> string" where
  "decimal n =
     (if n < 10 then [char_of (48 + n)]
      else decimal (n div 10) @ [char_of (48 + n mod 10)])"

declare decimal.simps [simp del]

definition number_toString :: "jsnumber \<Rightarrow> error + string" where
  "number_toString n =
     (case n of
        NaN \<Rightarrow> Inr ''NaN''
      | PosInfinity \<Rightarrow> Inr ''Infinity''
      | NegInfinity \<Rightarrow> Inr ''-Infinity''
      | Finite i \<Rightarrow>
          if \<bar>i\<bar> < 2 ^ 53
          then Inr ((if i < 0 then ''-'' else []) @ decimal (nat \<bar>i\<bar>))
          else Inl NotModelled)"

subsection \<open>URLSearchParams\<close>

text \<open>
  A \<open>URLSearchParams\<close> object is an ordered list of name-value pairs. \<open>get\<close> returns
  the value of the first pair with the name, or \<open>null\<close> (here \<open>None\<close>); \<open>set\<close>
  overwrites the first pair with the name and removes the others, or appends a pair;
  \<open>delete\<close> removes every pair with the name.
\<close>

type_synonym URLSearchParams = "(string \<times> string) list"

definition searchParams_get :: "URLSearchParams \<Rightarrow> string \<Rightarrow> string option" where
  "searchParams_get sp name = map_of sp name"

definition searchParams_delete :: "string \<Rightarrow> URLSearchParams \<Rightarrow> URLSearchParams" where
  "searchParams_delete name sp = filter (\<lambda>p. fst p \<noteq> name) sp"

fun searchParams_set :: "string \<Rightarrow> string \<Rightarrow> URLSearchParams \<Rightarrow> URLSearchParams" where
  "searchParams_set name v [] = [(name, v)]"
| "searchParams_set name v (p # ps) =
     (if fst p = name then (name, v) # searchParams_delete name ps
      else p # searchParams_set name v ps)"

section \<open>Column definitions, query keys and table state (types.ts, parseTableState.ts)\<close>

text \<open>
  A filter definition carries the two codec functions; either may throw, which is the
  \<open>Inl\<close> of the result. The render hooks and the initial value are not used by the
  codec and are left out. \<open>null\<close> is the value \<open>JNull\<close>.
\<close>

record ColumnFilterDefinition =
  encodeForUrl :: "jsval \<Rightarrow> error + string"
  decodeFromUrl :: "string \<Rightarrow> error + jsval"

text \<open>The field \<open>filter\<close> of the source is \<open>filter_def\<close> here.\<close>

record ColumnDefinition =
  key :: string
  filter_def :: "ColumnFilterDefinition option"
  sortable :: bool
  initialVisibility :: bool

datatype SortOrder = Asc | Desc

fun sortOrder_string :: "SortOrder \<Rightarrow> string" where
  "sortOrder_string Asc = ''asc''"
| "sortOrder_string Desc = ''desc''"

text \<open>The keys of the query parameters; the fields that share a name with a field of
  the table state carry the suffix \<open>_key\<close>.\<close>

record QueryKeys =
  keywordSearch_key :: string
  sortBy_key :: string
  sortOrder_key :: string
  columnVisibility_key :: string
  page_key :: string
  filterPrefix :: string

text \<open>\<open>getQueryKeys(options)\<close>; the argument is \<open>options?.queryParamPrefix\<close>,
  \<open>None\<close> when the options or the field are missing.\<close>

definition getQueryKeys :: "string option \<Rightarrow> QueryKeys" where
  "getQueryKeys queryParamPrefix =
     (let prefix = (case queryParamPrefix of None \<Rightarrow> ''table'' | Some p \<Rightarrow> p)
      in \<lparr> keywordSearch_key = prefix @ ''_keyword'',
           sortBy_key = prefix @ ''_sort_by'',
           sortOrder_key = prefix @ ''_sort_order'',
           columnVisibility_key = prefix @ ''_columns'',
           page_key = prefix @ ''_page'',
           filterPrefix = prefix @ ''_filter_'' \<rparr>)"

record SortState =
  sortBy :: "string option"
  sortOrder :: "SortOrder option"

text \<open>The fields \<open>sort\<close> and \<open>filter\<close> of the source are \<open>sort_state\<close> and
  \<open>filter_state\<close> here.\<close>

record TableState =
  keywordSearch :: "string option"
  sort_state :: SortState
  columnVisibility :: "string list"
  pagination :: jsnumber
  filter_state :: "string \<rightharpoonup> jsval"

subsection \<open>parseColumnVisibility\<close>

definition isDefinedColumn :: "ColumnDefinition list \<Rightarrow> string \<Rightarrow> bool" where
  "isDefinedColumn columnDefinitions k = list_ex (\<lambda>col. key col = k) columnDefinitions"

definition initialVisibleColumns :: "ColumnDefinition list \<Rightarrow> string list" where
  "initialVisibleColumns columnDefinitions =
     map key (filter initialVisibility columnDefinitions)"

definition columnVisibilityArrayFromParam ::
  "string option \<Rightarrow> ColumnDefinition list \<Rightarrow> string list" where
  "columnVisibilityArrayFromParam columnVisibilityParam columnDefinitions =
     filter (isDefinedColumn columnDefinitions)
       (split_on CHR '','' (case columnVisibilityParam of None \<Rightarrow> [] | Some s \<Rightarrow> s))"

definition parseColumnVisibility ::
  "string option \<Rightarrow> ColumnDefinition list \<Rightarrow> string list" where
  "parseColumnVisibility columnVisibilityParam columnDefinitions =
     (let fromParam = columnVisibilityArrayFromParam columnVisibilityParam columnDefinitions
      in if length fromParam > 0 then fromParam
         else initialVisibleColumns columnDefinitions)"

subsection \<open>parseFilters\<close>

text \<open>
  One step of the \<open>forEach\<close> over the column definitions: a column without a filter
  definition, a missing parameter, a decoder that throws (the inner \<open>catch\<close>) and a
  decoder that returns \<open>null\<close> all leave the result as it is. Nothing else in the loop
  can throw, so the outer \<open>catch\<close> is never taken.

  The result is a plain object, \<open>{}\<close>, and the map holds its own properties.
  \<open>filter[colKey] = filterValue\<close> stores an own property for every key but
  \<open>__proto__\<close>: that assignment goes to the setter of \<open>Object.prototype\<close>, which
  stores no property (it replaces the prototype of the object when the value is an
  object; prototypes are not modelled).
\<close>

definition parseFilters_step ::
  "URLSearchParams \<Rightarrow> QueryKeys \<Rightarrow> ColumnDefinition \<Rightarrow> (string \<rightharpoonup> jsval) \<Rightarrow> (string \<rightharpoonup> jsval)" where
  "parseFilters_step searchParams queryKeys col acc =
     (case filter_def col of
        None \<Rightarrow> acc
      | Some f \<Rightarrow>
          (case searchParams_get searchParams (filterPrefix queryKeys @ key col) of
             None \<Rightarrow> acc
           | Some encodedFilterValue \<Rightarrow>
               (case decodeFromUrl f encodedFilterValue of
                  Inl e \<Rightarrow> acc
                | Inr filterValue \<Rightarrow>
                    if filterValue \<noteq> JNull then
                      (if key col = ''__proto__'' then acc
                       else acc(key col \<mapsto> filterValue))
                    else acc)))"

definition parseFilters ::
  "URLSearchParams \<Rightarrow> QueryKeys \<Rightarrow> ColumnDefinition list \<Rightarrow> (string \<rightharpoonup> jsval)" where
  "parseFilters searchParams queryKeys columnDefinitions =
     fold (parseFilters_step searchParams queryKeys) columnDefinitions Map.empty"

text \<open>What one column contributes to the decoded filters: the decoded value of its
  parameter, unless the column has no filter definition, the parameter is missing, the
  decoder throws or returns \<open>null\<close>, or the key of the column is \<open>__proto__\<close>.\<close>

definition decodedFilter :: "URLSearchParams \<Rightarrow> QueryKeys \<Rightarrow> ColumnDefinition \<Rightarrow> jsval option" where
  "decodedFilter sp qk col =
     (case filter_def col of
        None \<Rightarrow> None
      | Some f \<Rightarrow>
          (case searchParams_get sp (filterPrefix qk @ key col) of
             None \<Rightarrow> None
           | Some enc \<Rightarrow>
               (case decodeFromUrl f enc of
                  Inl e \<Rightarrow> None
                | Inr v \<Rightarrow>
                    if v = JNull \<or> key col = ''__proto__'' then None else Some v)))"

subsection \<open>parseTableState\<close>

text \<open>
  \<open>sortByParam && columnDefinitions.some(...)\<close> is falsy for \<open>null\<close> and for the
  empty string. The pattern for the page is the unanchored \<open>/[0-9]+/\<close>.
\<close>

definition parseTableState ::
  "URLSearchParams \<Rightarrow> QueryKeys \<Rightarrow> ColumnDefinition list \<Rightarrow> TableState" where
  "parseTableState searchParams queryKeys columnDefinitions =
     (let keywordSearch' = searchParams_get searchParams (keywordSearch_key queryKeys);
          sortByParam = searchParams_get searchParams (sortBy_key queryKeys);
          sortBy' =
            (case sortByParam of
               None \<Rightarrow> None
             | Some s \<Rightarrow>
                 if s \<noteq> [] \<and> list_ex (\<lambda>col. key col = s \<and> sortable col) columnDefinitions
                 then Some s else None);
          sortOrderParam = searchParams_get searchParams (sortOrder_key queryKeys);
          sortOrder' =
            (if sortOrderParam = Some ''asc'' then Some Asc
             else if sortOrderParam = Some ''desc'' then Some Desc
             else None);
          columnVisibilityParam =
            searchParams_get searchParams (columnVisibility_key queryKeys);
          columnVisibility' = parseColumnVisibility columnVisibilityParam columnDefinitions;
          pageParam = searchParams_get searchParams (page_key queryKeys);
          pageString = (case pageParam of None \<Rightarrow> [] | Some p \<Rightarrow> p);
          pagination' = (if test_digits pageString then parseInt pageString else Finite 1);
          filter' = parseFilters searchParams queryKeys columnDefinitions
      in \<lparr> keywordSearch = keywordSearch',
           sort_state = \<lparr> sortBy = sortBy', sortOrder = sortOrder' \<rparr>,
           columnVisibility = columnVisibility',
           pagination = pagination',
           filter_state = filter' \<rparr>)"

section \<open>Actions (useQueryParams.ts, useTableActions.ts)\<close>

text \<open>
  \<open>updateQueryParams(updates, resetPage)\<close> copies the current parameters, applies the
  entries of \<open>updates\<close> in order (\<open>null\<close>, here \<open>None\<close>, deletes the key), deletes the
  page key when \<open>resetPage\<close> is set, and pushes the result to the router. The value is
  the pushed parameters. The keys of one \<open>updates\<close> object are distinct in every call.
\<close>

definition applyUpdate :: "string \<times> string option \<Rightarrow> URLSearchParams \<Rightarrow> URLSearchParams" where
  "applyUpdate u newParams =
     (case snd u of
        None \<Rightarrow> searchParams_delete (fst u) newParams
      | Some v \<Rightarrow> searchParams_set (fst u) v newParams)"

definition updateQueryParams ::
  "URLSearchParams \<Rightarrow> QueryKeys \<Rightarrow> (string \<times> string option) list \<Rightarrow> bool \<Rightarrow> URLSearchParams" where
  "updateQueryParams searchParams queryKeys updates resetPage =
     (let newParams = fold applyUpdate updates searchParams
      in if resetPage then searchParams_delete (page_key queryKeys) newParams
         else newParams)"

text \<open>
  The actions of \<open>useTableActions(columnDefinitions, tableState, options)\<close>. The query
  keys and the current parameters come from \<open>useQueryParams(options)\<close>. An action
  returns \<open>Some\<close> of the parameters it pushes, or \<open>None\<close> when it returns without
  pushing; \<open>setFilter\<close> can also throw, through the encoder of the column. In
  \<open>createTable\<close> the state handed to the actions is \<open>useTableState\<close> of the same
  column definitions and options, that is \<open>parseTableState\<close> of the current parameters;
  the properties below are stated for that state.
\<close>

definition setKeywordSearch ::
  "QueryKeys \<Rightarrow> URLSearchParams \<Rightarrow> string \<Rightarrow> URLSearchParams option" where
  "setKeywordSearch queryKeys searchParams keyword =
     Some (updateQueryParams searchParams queryKeys
             [(keywordSearch_key queryKeys, if keyword = [] then None else Some keyword)]
             True)"

definition setSort ::
  "QueryKeys \<Rightarrow> URLSearchParams \<Rightarrow> string option \<Rightarrow> SortOrder option
     \<Rightarrow> URLSearchParams option" where
  "setSort queryKeys searchParams sortBy' sortOrder' =
     Some (updateQueryParams searchParams queryKeys
             [(sortBy_key queryKeys, sortBy'),
              (sortOrder_key queryKeys, map_option sortOrder_string sortOrder')]
             False)"

definition toggleSort ::
  "TableState \<Rightarrow> QueryKeys \<Rightarrow> URLSearchParams \<Rightarrow> string \<Rightarrow> URLSearchParams option" where
  "toggleSort tableState queryKeys searchParams sortBy' =
     (if sortBy (sort_state tableState) = Some sortBy' then
        (if sortOrder (sort_state tableState) = Some Asc
         then setSort queryKeys searchParams (Some sortBy') (Some Desc)
         else setSort queryKeys searchParams None None)
      else setSort queryKeys searchParams (Some sortBy') (Some Asc))"

definition setColumnVisibility ::
  "TableState \<Rightarrow> QueryKeys \<Rightarrow> URLSearchParams \<Rightarrow> string \<Rightarrow> bool
     \<Rightarrow> URLSearchParams option" where
  "setColumnVisibility tableState queryKeys searchParams columnKey isVisible =
     (let newVisibleColumns =
            (if isVisible then columnVisibility tableState @ [columnKey]
             else filter (\<lambda>col. col \<noteq> columnKey) (columnVisibility tableState))
      in if length newVisibleColumns = 0 then None
         else Some (updateQueryParams searchParams queryKeys
                      [(columnVisibility_key queryKeys,
                        Some (join_with '','' newVisibleColumns))]
                      False))"

definition setFilter ::
  "ColumnDefinition list \<Rightarrow> QueryKeys \<Rightarrow> URLSearchParams \<Rightarrow> string \<Rightarrow> jsval
     \<Rightarrow> error + URLSearchParams option" where
  "setFilter columnDefinitions queryKeys searchParams columnKey filterValue =
     (let filterParamKey = filterPrefix queryKeys @ columnKey
      in if filterValue = JNull
         then Inr (Some (updateQueryParams searchParams queryKeys
                           [(filterParamKey, None)] True))
         else
           (case find (\<lambda>col. key col = columnKey) columnDefinitions of
              None \<Rightarrow> Inr None
            | Some columnDef \<Rightarrow>
                (case filter_def columnDef of
                   None \<Rightarrow> Inr None
                 | Some f \<Rightarrow>
                     (case encodeForUrl f filterValue of
                        Inl e \<Rightarrow> Inl e
                      | Inr encodedValue \<Rightarrow>
                          Inr (Some (updateQueryParams searchParams queryKeys
                                       [(filterParamKey, Some encodedValue)] True))))))"

definition setPagination ::
  "QueryKeys \<Rightarrow> URLSearchParams \<Rightarrow> jsnumber \<Rightarrow> error + URLSearchParams option" where
  "setPagination queryKeys searchParams page =
     (case number_toString page of
        Inl e \<Rightarrow> Inl e
      | Inr pageString \<Rightarrow>
          Inr (Some (updateQueryParams searchParams queryKeys
                       [(page_key queryKeys, Some pageString)] False)))"

section \<open>Filter codecs (filterUtils.ts)\<close>

text \<open>
  \<open>JSON.stringify\<close> and \<open>JSON.parse\<close> are built-ins and the schema library is a
  dependency: the codecs take them as parameters. A schema is the function
  \<open>v.parse(schema, \<cdot>)\<close>, which returns the validated output or throws.
\<close>

record JSON =
  stringify :: "jsval \<Rightarrow> error + string"
  parse :: "string \<Rightarrow> error + jsval"

type_synonym schema = "jsval \<Rightarrow> error + jsval"

definition createFilterEncoderDecoder :: "JSON \<Rightarrow> schema \<Rightarrow> ColumnFilterDefinition" where
  "createFilterEncoderDecoder json v_parse =
     \<lparr> encodeForUrl =
         (\<lambda>value. case v_parse value of
                     Inl e \<Rightarrow> Inl e
                   | Inr validated \<Rightarrow> stringify json validated),
       decodeFromUrl =
         (\<lambda>encoded. case parse json encoded of
                       Inl e \<Rightarrow> Inr JNull
                     | Inr parsed \<Rightarrow>
                         (case v_parse parsed of
                            Inl e \<Rightarrow> Inr JNull
                          | Inr validated \<Rightarrow> Inr validated)) \<rparr>"

text \<open>\<open>defineTableColumnFilter\<close>: the caller's functions, or the JSON text with a
  decoder that returns \<open>null\<close> when the text does not parse.\<close>

definition defineTableColumnFilter ::
  "JSON \<Rightarrow> (jsval \<Rightarrow> error + string) option \<Rightarrow> (string \<Rightarrow> error + jsval) option
     \<Rightarrow> ColumnFilterDefinition" where
  "defineTableColumnFilter json encodeForUrl' decodeFromUrl' =
     \<lparr> encodeForUrl =
         (case encodeForUrl' of
            Some f \<Rightarrow> f
          | None \<Rightarrow> (\<lambda>filter'. stringify json filter')),
       decodeFromUrl =
         (case decodeFromUrl' of
            Some f \<Rightarrow> f
          | None \<Rightarrow> (\<lambda>encoded. case parse json encoded of
                                  Inl e \<Rightarrow> Inr JNull
                                | Inr parsed \<Rightarrow> Inr parsed)) \<rparr>"

definition defineTableColumnFilterWithSchema :: "JSON \<Rightarrow> schema \<Rightarrow> ColumnFilterDefinition" where
  "defineTableColumnFilterWithSchema json v_parse = createFilterEncoderDecoder json v_parse"

text \<open>
  The two built-ins on literals, for running the codecs on concrete values.
  \<open>JSON.stringify\<close> writes \<open>null\<close>, \<open>true\<close>, \<open>false\<close> and a string without
  quote, backslash or control character as their JSON text, and a number that is not
  finite as \<open>null\<close>. \<open>JSON.parse\<close> reads the same texts back, and throws a
  \<open>SyntaxError\<close> on the empty text and on a text whose first character cannot begin
  a JSON value. Every other argument is \<open>NotModelled\<close>: what a codec returns on
  such an argument says nothing about the code, and the properties below run the codecs
  on modelled texts and values only.
\<close>

definition plainString :: "string \<Rightarrow> bool" where
  "plainString s =
     list_all (\<lambda>c. c \<noteq> CHR 0x22 \<and> c \<noteq> CHR 0x5C \<and> (32::nat) \<le> of_char c) s"

definition JSON_literals :: JSON where
  "JSON_literals =
     \<lparr> stringify =
         (\<lambda>v. case v of
                 JNull \<Rightarrow> Inr ''null''
               | JBool b \<Rightarrow> Inr (if b then ''true'' else ''false'')
               | JNum n \<Rightarrow> (case n of Finite i \<Rightarrow> Inl NotModelled | _ \<Rightarrow> Inr ''null'')
               | JStr s \<Rightarrow>
                   if plainString s then Inr (CHR 0x22 # s @ [CHR 0x22]) else Inl NotModelled
               | _ \<Rightarrow> Inl NotModelled),
       parse =
         (\<lambda>t. if t = ''null'' then Inr JNull
              else if t = ''true'' then Inr (JBool True)
              else if t = ''false'' then Inr (JBool False)
              else
                (case t of
                   [] \<Rightarrow> Inl SyntaxError
                 | c # cs \<Rightarrow>
                     if c = CHR 0x22 \<and> cs \<noteq> [] \<and> last cs = CHR 0x22 \<and> plainString (butlast cs)
                     then Inr (JStr (butlast cs))
                     else if c \<in> set ''{[-0123456789tfn'' \<or> c = CHR 0x22 \<or> isWhiteSpace c
                     then Inl NotModelled
                     else Inl SyntaxError)) \<rparr>"

text \<open>Two schemas of the schema library: \<open>v.number()\<close>, which accepts every number
  but \<open>NaN\<close>, and the \<open>statusFilterSchema\<close> of filterUtils.test.ts,
  \<open>v.union([v.literal("active"), v.literal("inactive")])\<close>. Both return the value
  they accept.\<close>

definition v_number :: schema where
  "v_number input =
     (case input of
        JNum n \<Rightarrow> if n = NaN then Inl ValiError else Inr input
      | _ \<Rightarrow> Inl ValiError)"

definition statusFilterSchema :: schema where
  "statusFilterSchema input =
     (if input = JStr ''active'' \<or> input = JStr ''inactive'' then Inr input
      else Inl ValiError)"

text \<open>
  The column definitions of parseTableState.test.ts: \<open>id\<close> without a filter,
  \<open>name\<close> with the identity as its codec and \<open>age\<close> with \<open>toString\<close> and
  \<open>parseInt\<close>. The types keep other values away from the two encoders.
\<close>

definition test_columnDefinitions :: "ColumnDefinition list" where
  "test_columnDefinitions =
     [\<lparr> key = ''id'', filter_def = None, sortable = True, initialVisibility = True \<rparr>,
      \<lparr> key = ''name'',
        filter_def = Some (defineTableColumnFilter JSON_literals
          (Some (\<lambda>value. case value of JStr s \<Rightarrow> Inr s | _ \<Rightarrow> Inl NotModelled))
          (Some (\<lambda>value. Inr (JStr value)))),
        sortable = True, initialVisibility = True \<rparr>,
      \<lparr> key = ''age'',
        filter_def = Some (defineTableColumnFilter JSON_literals
          (Some (\<lambda>value. case value of JNum n \<Rightarrow> number_toString n | _ \<Rightarrow> Inl NotModelled))
          (Some (\<lambda>value. Inr (JNum (parseInt value))))),
        sortable = False, initialVisibility = False \<rparr>]"

section \<open>The single-file table of createTable.tsx\<close>

text \<open>
  The repository also holds an earlier table, written as one file, that reads and writes
  the same fields under the fixed keys \<open>page\<close> and \<open>columns\<close>. Its functions are
  modelled here on the parts of the table definition they use: the page size
  (\<open>tableDefinition.pagination\<close>, \<open>None\<close> for \<open>null\<close>) and the columns
  (\<open>tableDefinition.columns\<close>, where \<open>initialVisibility\<close> lies under \<open>visibility\<close>).
  \<open>Number(s)\<close> is applied only to strings of decimal digits; as for \<open>parseInt\<close>,
  the model returns the exact integer, which is the result of the code below \<open>2^53\<close>.
\<close>

definition getPageFromQueryString :: "URLSearchParams \<Rightarrow> nat option \<Rightarrow> jsnumber option" where
  "getPageFromQueryString queryParams paginationDefinition =
     (case paginationDefinition of
        None \<Rightarrow> None
      | Some parPage \<Rightarrow>
          (let pageFromQuery =
                 (case searchParams_get queryParams ''page'' of None \<Rightarrow> [] | Some p \<Rightarrow> p)
           in Some (if test_positive_decimal pageFromQuery
                    then Finite (int (digitsValue 10 pageFromQuery))
                    else Finite 1)))"

text \<open>A page that is not below 1.\<close>

definition notBelowOne :: "jsnumber \<Rightarrow> bool" where
  "notBelowOne x = (case x of Finite n \<Rightarrow> 1 \<le> n | PosInfinity \<Rightarrow> True | _ \<Rightarrow> False)"

definition getVisibleColumnsFromQueryString ::
  "URLSearchParams \<Rightarrow> ColumnDefinition list \<Rightarrow> string list" where
  "getVisibleColumnsFromQueryString queryParams columns =
     (case searchParams_get queryParams ''columns'' of
        None \<Rightarrow> initialVisibleColumns columns
      | Some columnVisibilityQueryParam \<Rightarrow>
          (let visibleColumns =
                 filter (isDefinedColumn columns)
                   (split_on CHR '','' columnVisibilityQueryParam)
           in if length visibleColumns = 0 then initialVisibleColumns columns
              else visibleColumns))"

text \<open>The \<open>Set\<close> of the source is used for membership and for its size only; a list
  stands for it.\<close>

definition createTable_setColumnVisibility ::
  "ColumnDefinition list \<Rightarrow> URLSearchParams \<Rightarrow> string \<Rightarrow> bool \<Rightarrow> URLSearchParams option" where
  "createTable_setColumnVisibility columns searchParams columnKey isVisible =
     (let visibleColumns = getVisibleColumnsFromQueryString searchParams columns
      in if isVisible then
           (let newVisibleColumns = visibleColumns @ [columnKey]
            in if list_all (\<lambda>column. key column \<in> set newVisibleColumns) columns
               then Some (searchParams_delete ''columns'' searchParams)
               else Some (searchParams_set ''columns''
                            (join_with '',''
                               (filter (\<lambda>k. k \<in> set newVisibleColumns) (map key columns)))
                            searchParams))
         else
           (let newVisibleColumns = filter (\<lambda>column. column \<noteq> columnKey) visibleColumns
            in if newVisibleColumns = [] then None
               else Some (searchParams_set ''columns''
                            (join_with '',''
                               (filter (\<lambda>k. k \<in> set newVisibleColumns) (map key columns)))
                            searchParams)))"

text \<open>
  A later single-file revision of \<open>createTable\<close> has the state and the actions of the
  hooks inline. Its \<open>setSort\<close> guards the two arguments together:
  \<open>if (sortBy && sortOrder)\<close> sets both keys, anything else deletes both. The query
  keys of that revision are built from a table name; the model takes them as given.
\<close>

definition createTable_setSort ::
  "QueryKeys \<Rightarrow> URLSearchParams \<Rightarrow> string option \<Rightarrow> SortOrder option
     \<Rightarrow> URLSearchParams option" where
  "createTable_setSort queryKeys searchParams sortBy' sortOrder' =
     (case sortBy' of
        None \<Rightarrow>
          Some (searchParams_delete (sortOrder_key queryKeys)
                  (searchParams_delete (sortBy_key queryKeys) searchParams))
      | Some s \<Rightarrow>
          (case sortOrder' of
             None \<Rightarrow>
               Some (searchParams_delete (sortOrder_key queryKeys)
                       (searchParams_delete (sortBy_key queryKeys) searchParams))
           | Some ord \<Rightarrow>
               if s \<noteq> [] then
                 Some (searchParams_set (sortOrder_key queryKeys) (sortOrder_string ord)
                         (searchParams_set (sortBy_key queryKeys) s searchParams))
               else
                 Some (searchParams_delete (sortOrder_key queryKeys)
                         (searchParams_delete (sortBy_key queryKeys) searchParams))))"

section \<open>Properties\<close>

subsection \<open>The cases of parseTableState.test.ts and filterUtils.test.ts\<close>

text \<open>The model gives what the tests of the repository expect (with ASCII strings
  in place of the Japanese ones).\<close>

lemma test_getQueryKeys:
  "getQueryKeys None =
     \<lparr> keywordSearch_key = ''table_keyword'', sortBy_key = ''table_sort_by'',
       sortOrder_key = ''table_sort_order'', columnVisibility_key = ''table_columns'',
       page_key = ''table_page'', filterPrefix = ''table_filter_'' \<rparr>"
  and "getQueryKeys (Some ''custom'') =
     \<lparr> keywordSearch_key = ''custom_keyword'', sortBy_key = ''custom_sort_by'',
       sortOrder_key = ''custom_sort_order'', columnVisibility_key = ''custom_columns'',
       page_key = ''custom_page'', filterPrefix = ''custom_filter_'' \<rparr>"
  by (simp_all add: getQueryKeys_def)

lemmas test_defs =
  parseTableState_def parseColumnVisibility_def columnVisibilityArrayFromParam_def
  isDefinedColumn_def initialVisibleColumns_def parseFilters_def parseFilters_step_def
  test_columnDefinitions_def defineTableColumnFilter_def test_getQueryKeys
  searchParams_get_def test_digits_def isDigit_def Let_def

lemma test_parseTableState_empty:
  "parseTableState [] (getQueryKeys None) test_columnDefinitions =
     \<lparr> keywordSearch = None,
       sort_state = \<lparr> sortBy = None, sortOrder = None \<rparr>,
       columnVisibility = [''id'', ''name''],
       pagination = Finite 1,
       filter_state = Map.empty \<rparr>"
  by (simp add: test_defs)

lemma test_parseTableState_sort:
  "sort_state (parseTableState [(''table_sort_by'', ''id''), (''table_sort_order'', ''desc'')]
                 (getQueryKeys None) test_columnDefinitions)
     = \<lparr> sortBy = Some ''id'', sortOrder = Some Desc \<rparr>"
  and "sort_state (parseTableState
                 [(''table_sort_by'', ''invalid_column''), (''table_sort_order'', ''asc'')]
                 (getQueryKeys None) test_columnDefinitions)
     = \<lparr> sortBy = None, sortOrder = Some Asc \<rparr>"
  and "sort_state (parseTableState
                 [(''table_sort_by'', ''id''), (''table_sort_order'', ''invalid_order'')]
                 (getQueryKeys None) test_columnDefinitions)
     = \<lparr> sortBy = Some ''id'', sortOrder = None \<rparr>"
  by (simp_all add: test_defs)

lemma test_parseTableState_columns:
  "columnVisibility (parseTableState [(''table_columns'', ''id,age'')]
                       (getQueryKeys None) test_columnDefinitions) = [''id'', ''age'']"
  and "columnVisibility (parseTableState [(''table_columns'', ''id,invalid_column,name'')]
                       (getQueryKeys None) test_columnDefinitions) = [''id'', ''name'']"
  by (simp_all add: test_defs)

lemma test_parseTableState_page:
  "pagination (parseTableState [(''table_page'', ''5'')]
                 (getQueryKeys None) test_columnDefinitions) = Finite 5"
  and "pagination (parseTableState [(''table_page'', ''invalid_page'')]
                 (getQueryKeys None) test_columnDefinitions) = Finite 1"
  by (simp_all add: test_defs parseInt_def isWhiteSpace_def digitValue_def digitsValue_def)

lemma test_parseTableState_filter:
  "filter_state (parseTableState
                   [(''table_filter_name'', ''yamada''), (''table_filter_age'', ''30'')]
                   (getQueryKeys None) test_columnDefinitions)
     = [''name'' \<mapsto> JStr ''yamada'', ''age'' \<mapsto> JNum (Finite 30)]"
  by (simp add: test_defs parseInt_def isWhiteSpace_def digitValue_def digitsValue_def)

lemma test_parseTableState_combined:
  "parseTableState
     [(''table_keyword'', ''kw''), (''table_sort_by'', ''name''),
      (''table_sort_order'', ''asc''), (''table_columns'', ''id,name,age''),
      (''table_page'', ''3''), (''table_filter_name'', ''tanaka'')]
     (getQueryKeys None) test_columnDefinitions
   = \<lparr> keywordSearch = Some ''kw'',
       sort_state = \<lparr> sortBy = Some ''name'', sortOrder = Some Asc \<rparr>,
       columnVisibility = [''id'', ''name'', ''age''],
       pagination = Finite 3,
       filter_state = [''name'' \<mapsto> JStr ''tanaka''] \<rparr>"
  by (simp add: test_defs parseInt_def isWhiteSpace_def digitValue_def digitsValue_def)

lemma test_statusFilterSchema:
  "encodeForUrl (defineTableColumnFilterWithSchema JSON_literals statusFilterSchema)
     (JStr ''active'') = stringify JSON_literals (JStr ''active'')"
  and "decodeFromUrl (defineTableColumnFilterWithSchema JSON_literals statusFilterSchema)
     (CHR 0x22 # ''active'' @ [CHR 0x22]) = Inr (JStr ''active'')"
  and "encodeForUrl (defineTableColumnFilterWithSchema JSON_literals statusFilterSchema)
     (JStr ''pending'') = Inl ValiError"
  and "decodeFromUrl (defineTableColumnFilterWithSchema JSON_literals statusFilterSchema)
     ''invalid-json'' = Inr JNull"
  by (simp_all add: defineTableColumnFilterWithSchema_def createFilterEncoderDecoder_def
      statusFilterSchema_def JSON_literals_def plainString_def isWhiteSpace_def)

lemma test_toggleSort_cycle:
  "toggleSort (parseTableState [] (getQueryKeys None) test_columnDefinitions)
     (getQueryKeys None) [] ''name''
     = Some [(''table_sort_by'', ''name''), (''table_sort_order'', ''asc'')]"
  and "toggleSort
     (parseTableState [(''table_sort_by'', ''name''), (''table_sort_order'', ''asc'')]
        (getQueryKeys None) test_columnDefinitions)
     (getQueryKeys None) [(''table_sort_by'', ''name''), (''table_sort_order'', ''asc'')]
     ''name''
     = Some [(''table_sort_by'', ''name''), (''table_sort_order'', ''desc'')]"
  and "toggleSort
     (parseTableState [(''table_sort_by'', ''name''), (''table_sort_order'', ''desc'')]
        (getQueryKeys None) test_columnDefinitions)
     (getQueryKeys None) [(''table_sort_by'', ''name''), (''table_sort_order'', ''desc'')]
     ''name''
     = Some []"
  by (simp_all add: toggleSort_def setSort_def updateQueryParams_def applyUpdate_def
      searchParams_delete_def test_defs)

subsection \<open>URLSearchParams\<close>

lemma searchParams_get_delete:
  "searchParams_get (searchParams_delete name sp) k =
     (if k = name then None else searchParams_get sp k)"
  by (induction sp) (auto simp: searchParams_get_def searchParams_delete_def)

lemma searchParams_get_set:
  "searchParams_get (searchParams_set name v sp) k =
     (if k = name then Some v else searchParams_get sp k)"
proof (induction sp)
  case Nil
  then show ?case by (simp add: searchParams_get_def)
next
  case (Cons p ps)
  have del: "map_of (searchParams_delete name ps) k = (if k = name then None else map_of ps k)"
    using searchParams_get_delete [of name ps k] by (simp add: searchParams_get_def)
  show ?case
    using Cons del by (cases p) (auto simp: searchParams_get_def)
qed

subsection \<open>Splitting and joining\<close>

lemma split_on_not_Nil: "split_on sep s \<noteq> []"
  by (induction s) (auto split: list.splits)

lemma split_on_no_sep: "t \<in> set (split_on sep s) \<Longrightarrow> sep \<notin> set t"
proof (induction s arbitrary: t)
  case Nil
  then show ?case by simp
next
  case (Cons c cs)
  then show ?case
    by (cases "split_on sep cs") (auto split: if_splits)
qed

lemma split_on_token: "sep \<notin> set x \<Longrightarrow> split_on sep x = [x]"
  by (induction x) auto

lemma split_on_append: "sep \<notin> set x \<Longrightarrow> split_on sep (x @ sep # r) = x # split_on sep r"
  by (induction x) auto

lemma join_with_split_on: "join_with [sep] (split_on sep s) = s"
proof (induction s)
  case Nil
  then show ?case by simp
next
  case (Cons c cs)
  show ?case
  proof (cases "c = sep")
    case True
    then show ?thesis
      using Cons split_on_not_Nil [of sep cs]
      by (cases "split_on sep cs") auto
  next
    case False
    obtain t ts where ts: "split_on sep cs = t # ts"
      using split_on_not_Nil [of sep cs] by (cases "split_on sep cs") auto
    then show ?thesis
      using Cons False by (cases ts) auto
  qed
qed

lemma split_on_join_with:
  "xs \<noteq> [] \<Longrightarrow> list_all (\<lambda>t. sep \<notin> set t) xs \<Longrightarrow> split_on sep (join_with [sep] xs) = xs"
proof (induction "[sep]" xs rule: join_with.induct)
  case 1
  then show ?case by simp
next
  case (2 x)
  then show ?case by (simp add: split_on_token)
next
  case (3 x y ys)
  then show ?case by (simp add: split_on_append)
qed

subsection \<open>The fields of the decoded state\<close>

lemma pagination_parseTableState:
  "pagination (parseTableState sp qk cols) =
     (let s = (case searchParams_get sp (page_key qk) of None \<Rightarrow> [] | Some p \<Rightarrow> p)
      in if test_digits s then parseInt s else Finite 1)"
  by (simp add: parseTableState_def Let_def)

lemma columnVisibility_parseTableState:
  "columnVisibility (parseTableState sp qk cols) =
     parseColumnVisibility (searchParams_get sp (columnVisibility_key qk)) cols"
  by (simp add: parseTableState_def Let_def)

lemma sortBy_parseTableState:
  "sortBy (sort_state (parseTableState sp qk cols)) =
     (case searchParams_get sp (sortBy_key qk) of
        None \<Rightarrow> None
      | Some s \<Rightarrow> if s \<noteq> [] \<and> list_ex (\<lambda>col. key col = s \<and> sortable col) cols
                  then Some s else None)"
  by (simp add: parseTableState_def Let_def)

lemma sortOrder_parseTableState:
  "sortOrder (sort_state (parseTableState sp qk cols)) =
     (if searchParams_get sp (sortOrder_key qk) = Some ''asc'' then Some Asc
      else if searchParams_get sp (sortOrder_key qk) = Some ''desc'' then Some Desc
      else None)"
  by (simp add: parseTableState_def Let_def)

lemma filter_state_parseTableState:
  "filter_state (parseTableState sp qk cols) = parseFilters sp qk cols"
  by (simp add: parseTableState_def Let_def)

subsection \<open>Pagination\<close>

text \<open>A value without a decimal digit, and a missing value, decode to page 1.\<close>

lemma pagination_without_digit:
  assumes "case searchParams_get sp (page_key qk) of
             None \<Rightarrow> True | Some p \<Rightarrow> \<not> list_ex isDigit p"
  shows "pagination (parseTableState sp qk cols) = Finite 1"
  using assms
  by (auto simp: pagination_parseTableState test_digits_def split: option.splits)

lemma digitValue_isDigit:
  "isDigit c \<Longrightarrow> digitValue 10 c = Some (of_char c - 48)"
  by (auto simp: isDigit_def digitValue_def)

lemma isDigit_not_space: "isDigit c \<Longrightarrow> \<not> isWhiteSpace c"
  by (auto simp: isDigit_def isWhiteSpace_def)

lemma isDigit_not_sign: "isDigit c \<Longrightarrow> c \<noteq> CHR ''+'' \<and> c \<noteq> CHR ''-''"
  by (auto simp: isDigit_def)

lemma isDigit_not_x: "isDigit c \<Longrightarrow> c \<noteq> CHR ''x'' \<and> c \<noteq> CHR ''X''"
  by (auto simp: isDigit_def)

lemma take2_digits_not_hex:
  "list_all isDigit s \<Longrightarrow> take 2 s \<noteq> ''0x'' \<and> take 2 s \<noteq> ''0X''"
proof (cases s)
  case Nil
  then show ?thesis by simp
next
  case (Cons a t)
  assume d: "list_all isDigit s"
  show ?thesis
  proof (cases t)
    case Nil
    with Cons show ?thesis by simp
  next
    case (Cons b u)
    with \<open>s = a # t\<close> d have "isDigit b" by simp
    then have "b \<noteq> CHR ''x'' \<and> b \<noteq> CHR ''X''" by (rule isDigit_not_x)
    with Cons \<open>s = a # t\<close> show ?thesis by auto
  qed
qed

text \<open>On a non-empty string of decimal digits \<open>parseInt\<close> is the decimal value.\<close>

lemma parseInt_digits:
  assumes "s \<noteq> []" and "list_all isDigit s" and "digitsValue 10 s < 2 ^ 53"
  shows "parseInt s = Finite (int (digitsValue 10 s))"
proof -
  obtain c cs where s: "s = c # cs" using assms(1) by (cases s) auto
  have c: "isDigit c" using assms(2) s by simp
  have s0: "dropWhile isWhiteSpace s = s"
    using c s isDigit_not_space by simp
  have nohex: "take 2 s \<noteq> ''0x'' \<and> take 2 s \<noteq> ''0X''"
    using assms(2) by (rule take2_digits_not_hex)
  have "\<forall>x \<in> set s. digitValue 10 x \<noteq> None"
    using assms(2) digitValue_isDigit by (auto simp: list_all_iff)
  then have z: "takeWhile (\<lambda>x. digitValue 10 x \<noteq> None) s = s"
    by simp
  have sg: "c \<noteq> CHR ''+'' \<and> c \<noteq> CHR ''-''" using c by (rule isDigit_not_sign)
  have sgn: "(case s of [] \<Rightarrow> (1::int) | c # _ \<Rightarrow> if c = CHR ''-'' then - 1 else 1) = 1"
    using s sg by simp
  have s1: "(case s of [] \<Rightarrow> s | c # cs \<Rightarrow> if c = CHR ''+'' \<or> c = CHR ''-'' then cs else s) = s"
    using s sg by simp
  have hex: "(take 2 s = ''0x'' \<or> take 2 s = ''0X'') = False"
    using nohex by simp
  show ?thesis
    unfolding parseInt_def Let_def s0 sgn s1 hex if_False z
    using assms(1) by simp
qed

lemma pagination_digits:
  assumes "searchParams_get sp (page_key qk) = Some p" and "p \<noteq> []" and "list_all isDigit p"
    and "digitsValue 10 p < 2 ^ 53"
  shows "pagination (parseTableState sp qk cols) = Finite (int (digitsValue 10 p))"
proof -
  have "test_digits p"
    using assms(2,3) by (cases p) (auto simp: test_digits_def)
  then show ?thesis
    using assms by (simp add: pagination_parseTableState parseInt_digits)
qed

lemma digitsValue_foldl_ge:
  "a \<le> foldl (\<lambda>acc c. acc * 10 + (case digitValue 10 c of None \<Rightarrow> 0 | Some d \<Rightarrow> d)) a z"
proof (induction z arbitrary: a)
  case Nil
  then show ?case by simp
next
  case (Cons c cs)
  have "a \<le> a * 10 + (case digitValue 10 c of None \<Rightarrow> 0 | Some d \<Rightarrow> d)" by simp
  also have "\<dots> \<le> foldl (\<lambda>acc c. acc * 10 + (case digitValue 10 c of None \<Rightarrow> 0 | Some d \<Rightarrow> d))
                     (a * 10 + (case digitValue 10 c of None \<Rightarrow> 0 | Some d \<Rightarrow> d)) cs"
    by (rule Cons.IH)
  finally show ?case by simp
qed

text \<open>The earlier table never decodes a page below 1: its pattern is anchored and
  excludes a leading zero. (Rounding to a double keeps a number at or above 1.)\<close>

lemma getPageFromQueryString_ge_1:
  "\<exists>x. getPageFromQueryString queryParams (Some parPage) = Some x \<and> notBelowOne x"
proof (cases "test_positive_decimal
                (case searchParams_get queryParams ''page'' of None \<Rightarrow> [] | Some p \<Rightarrow> p)")
  case False
  then show ?thesis by (simp add: getPageFromQueryString_def notBelowOne_def Let_def)
next
  case True
  define s where "s = (case searchParams_get queryParams ''page'' of None \<Rightarrow> [] | Some p \<Rightarrow> p)"
  from True obtain c cs where s: "s = c # cs" and c: "isDigit c" "c \<noteq> CHR ''0''"
    by (auto simp: test_positive_decimal_def s_def split: list.splits)
  have "1 \<le> (of_char c :: nat) - 48"
    using c by (auto simp: isDigit_def)
  then have "1 \<le> digitsValue 10 s"
    using digitsValue_foldl_ge [of "of_char c - 48" cs] c(1)
    by (simp add: digitsValue_def s digitValue_isDigit)
  then show ?thesis
    using True by (simp add: getPageFromQueryString_def notBelowOne_def Let_def s_def)
qed

text \<open>
  Claim C1. The decoded page is the parsed integer when the page value consists of
  decimal digits and 1 when it is missing or has no digit, and it is never below 1.
  \<open>parseTableState\<close> breaks the bound: its pattern is not anchored and admits zero, so
  the value \<open>0\<close> decodes to page 0, \<open>-5\<close> to page -5 and \<open>x5\<close> to \<open>NaN\<close>.
\<close>

theorem parseTableState_pagination_below_1:
  "pagination (parseTableState [(''table_page'', ''0'')] (getQueryKeys None) cols) = Finite 0
   \<and> pagination (parseTableState [(''table_page'', ''-5'')] (getQueryKeys None) cols)
       = Finite (- 5)
   \<and> pagination (parseTableState [(''table_page'', ''x5'')] (getQueryKeys None) cols) = NaN"
  by (simp add: pagination_parseTableState getQueryKeys_def searchParams_get_def
      test_digits_def isDigit_def parseInt_def isWhiteSpace_def digitValue_def
      digitsValue_def Let_def)

subsection \<open>Sorting\<close>

lemma getQueryKeys_sort_keys_distinct:
  "sortBy_key (getQueryKeys p) \<noteq> sortOrder_key (getQueryKeys p)"
  by (simp add: getQueryKeys_def Let_def)

lemma searchParams_get_applyUpdate:
  "searchParams_get (applyUpdate (k, v) sp) k' =
     (if k' = k then v else searchParams_get sp k')"
  by (cases v) (simp_all add: applyUpdate_def searchParams_get_delete searchParams_get_set)

text \<open>\<open>setSort\<close> of the hooks writes each of the two keys on its own.\<close>

lemma setSort_get:
  assumes "sortBy_key qk \<noteq> sortOrder_key qk"
  shows "\<exists>sp'. setSort qk sp a b = Some sp'
           \<and> searchParams_get sp' (sortBy_key qk) = a
           \<and> searchParams_get sp' (sortOrder_key qk) = map_option sortOrder_string b"
  using assms
  by (simp add: setSort_def updateQueryParams_def searchParams_get_applyUpdate)

text \<open>\<open>setSort\<close> of the single-file revision leaves both keys or none.\<close>

lemma createTable_setSort_both_or_none:
  assumes "sortBy_key qk \<noteq> sortOrder_key qk"
    and "createTable_setSort qk sp a b = Some sp'"
  shows "(searchParams_get sp' (sortBy_key qk) = None)
           = (searchParams_get sp' (sortOrder_key qk) = None)"
  using assms
  by (auto simp: createTable_setSort_def searchParams_get_delete searchParams_get_set
      split: option.splits if_splits)

text \<open>
  Claim C2. \<open>setSort\<close> with both arguments non-null writes both sort keys and with either
  argument null deletes both, so it never leaves one sort key alone. \<open>setSort\<close> of the
  hooks hands the two arguments to \<open>updateQueryParams\<close> as two separate updates:
  \<open>setSort("id", null)\<close> on the empty map leaves the sort column alone, and
  \<open>setSort(null, "asc")\<close> on a sorted map leaves the sort order alone.
\<close>

theorem setSort_leaves_one_sort_key:
  "setSort (getQueryKeys None) [] (Some ''id'') None = Some [(''table_sort_by'', ''id'')]
   \<and> setSort (getQueryKeys None)
         [(''table_sort_by'', ''name''), (''table_sort_order'', ''desc'')] None (Some Asc)
       = Some [(''table_sort_order'', ''asc'')]"
  by (simp add: setSort_def updateQueryParams_def applyUpdate_def getQueryKeys_def
      searchParams_delete_def Let_def)

lemma sort_state_parseTableState:
  "sort_state (parseTableState sp qk cols) =
     \<lparr> sortBy = (case searchParams_get sp (sortBy_key qk) of
                   None \<Rightarrow> None
                 | Some s \<Rightarrow>
                     if s \<noteq> [] \<and> list_ex (\<lambda>col. key col = s \<and> sortable col) cols
                     then Some s else None),
       sortOrder = (if searchParams_get sp (sortOrder_key qk) = Some ''asc'' then Some Asc
                    else if searchParams_get sp (sortOrder_key qk) = Some ''desc''
                    then Some Desc else None) \<rparr>"
  by (simp add: parseTableState_def Let_def)

text \<open>
  Claim C9, amended. For every sortable column \<open>c\<close> whose key is not the empty string,
  \<open>toggleSort(c)\<close> pushes a map that decodes as follows: ascending on \<open>c\<close> when the
  current state is not sorted on \<open>c\<close> (unsorted, or sorted on another column),
  descending on \<open>c\<close> when it is ascending on \<open>c\<close>, and unsorted, with both sort keys
  deleted, when it is descending on \<open>c\<close>.
\<close>

theorem toggleSort_cycle:
  assumes "list_ex (\<lambda>col. key col = c \<and> sortable col) cols" and "c \<noteq> []"
  shows "\<exists>sp'. toggleSort (parseTableState sp (getQueryKeys p) cols) (getQueryKeys p) sp c
                 = Some sp'
           \<and> sort_state (parseTableState sp' (getQueryKeys p) cols) =
               (if sortBy (sort_state (parseTableState sp (getQueryKeys p) cols)) = Some c
                then (if sortOrder (sort_state (parseTableState sp (getQueryKeys p) cols))
                           = Some Asc
                      then \<lparr> sortBy = Some c, sortOrder = Some Desc \<rparr>
                      else \<lparr> sortBy = None, sortOrder = None \<rparr>)
                else \<lparr> sortBy = Some c, sortOrder = Some Asc \<rparr>)
           \<and> (if sortBy (sort_state (parseTableState sp (getQueryKeys p) cols)) = Some c
                  \<and> sortOrder (sort_state (parseTableState sp (getQueryKeys p) cols))
                       \<noteq> Some Asc
               then searchParams_get sp' (sortBy_key (getQueryKeys p)) = None
                    \<and> searchParams_get sp' (sortOrder_key (getQueryKeys p)) = None
               else searchParams_get sp' (sortBy_key (getQueryKeys p)) = Some c)"
proof -
  let ?qk = "getQueryKeys p"
  let ?st = "parseTableState sp ?qk cols"
  have d: "sortBy_key ?qk \<noteq> sortOrder_key ?qk"
    by (rule getQueryKeys_sort_keys_distinct)
  show ?thesis
  proof (cases "sortBy (sort_state ?st) = Some c")
    case False
    from setSort_get [OF d, of sp "Some c" "Some Asc"]
    obtain sp' where s: "setSort ?qk sp (Some c) (Some Asc) = Some sp'"
      and g1: "searchParams_get sp' (sortBy_key ?qk) = Some c"
      and g2: "searchParams_get sp' (sortOrder_key ?qk) = Some ''asc''"
      by auto
    have "sort_state (parseTableState sp' ?qk cols) = \<lparr> sortBy = Some c, sortOrder = Some Asc \<rparr>"
      using g1 g2 assms by (simp add: sort_state_parseTableState)
    then show ?thesis
      using False s g1 by (simp add: toggleSort_def)
  next
    case True
    show ?thesis
    proof (cases "sortOrder (sort_state ?st) = Some Asc")
      case asc: True
      from setSort_get [OF d, of sp "Some c" "Some Desc"]
      obtain sp' where s: "setSort ?qk sp (Some c) (Some Desc) = Some sp'"
        and g1: "searchParams_get sp' (sortBy_key ?qk) = Some c"
        and g2: "searchParams_get sp' (sortOrder_key ?qk) = Some ''desc''"
        by auto
      have "sort_state (parseTableState sp' ?qk cols)
              = \<lparr> sortBy = Some c, sortOrder = Some Desc \<rparr>"
        using g1 g2 assms by (simp add: sort_state_parseTableState)
      then show ?thesis
        using True asc s g1 by (simp add: toggleSort_def)
    next
      case notasc: False
      from setSort_get [OF d, of sp None None]
      obtain sp' where s: "setSort ?qk sp None None = Some sp'"
        and g1: "searchParams_get sp' (sortBy_key ?qk) = None"
        and g2: "searchParams_get sp' (sortOrder_key ?qk) = None"
        by auto
      have "sort_state (parseTableState sp' ?qk cols) = \<lparr> sortBy = None, sortOrder = None \<rparr>"
        using g1 g2 by (simp add: sort_state_parseTableState)
      then show ?thesis
        using True notasc s g1 g2 by (simp add: toggleSort_def)
    qed
  qed
qed

theorem toggleSort_cycle_witness:
  "list_ex (\<lambda>col. key col = ''age'' \<and> sortable col)
     [\<lparr> key = ''age'', filter_def = None, sortable = True, initialVisibility = True \<rparr>]
   \<and> ''age'' \<noteq> []
   \<and> (\<exists>sp'. toggleSort
                (parseTableState [] (getQueryKeys None)
                   [\<lparr> key = ''age'', filter_def = None, sortable = True,
                      initialVisibility = True \<rparr>])
                (getQueryKeys None) [] ''age'' = Some sp'
            \<and> sort_state
                (parseTableState sp' (getQueryKeys None)
                   [\<lparr> key = ''age'', filter_def = None, sortable = True,
                      initialVisibility = True \<rparr>])
              = \<lparr> sortBy = Some ''age'', sortOrder = Some Asc \<rparr>)"
  using toggleSort_cycle [of "''age''"
      "[\<lparr> key = ''age'', filter_def = None, sortable = True, initialVisibility = True \<rparr>]"
      "[]" None]
  by (auto simp add: sortBy_parseTableState searchParams_get_def)

text \<open>
  Claim C9 as stated fails for a sortable column whose key is the empty string: the
  decoder treats an empty sort column as no sort column, so after \<open>toggleSort("")\<close>
  on the empty map the pushed map does not decode to ascending on that column.
\<close>

theorem toggleSort_empty_key_not_ascending:
  "toggleSort
     (parseTableState [] (getQueryKeys None)
        [\<lparr> key = [], filter_def = None, sortable = True, initialVisibility = True \<rparr>])
     (getQueryKeys None) [] []
     = Some [(''table_sort_by'', []), (''table_sort_order'', ''asc'')]
   \<and> sort_state
       (parseTableState [(''table_sort_by'', []), (''table_sort_order'', ''asc'')]
          (getQueryKeys None)
          [\<lparr> key = [], filter_def = None, sortable = True, initialVisibility = True \<rparr>])
     = \<lparr> sortBy = None, sortOrder = Some Asc \<rparr>"
  by (simp add: toggleSort_def setSort_def updateQueryParams_def applyUpdate_def
      sort_state_parseTableState sortBy_parseTableState getQueryKeys_def
      searchParams_get_def Let_def)

subsection \<open>Column visibility\<close>

lemma setColumnVisibility_eq:
  "setColumnVisibility st qk sp c v =
     (let new = (if v then columnVisibility st @ [c]
                 else filter (\<lambda>col. col \<noteq> c) (columnVisibility st))
      in if new = [] then None
         else Some (searchParams_set (columnVisibility_key qk) (join_with '','' new) sp))"
  by (simp add: setColumnVisibility_def updateQueryParams_def applyUpdate_def Let_def)

text \<open>
  Claim C3. A \<open>setColumnVisibility\<close> call that pushes a map writes the visible
  columns in the order of the column definitions. \<open>setColumnVisibility\<close> of the
  hooks appends the column to the decoded list and joins it as it is: with the columns
  \<open>id\<close>, \<open>name\<close>, \<open>age\<close> and only \<open>name\<close> visible, showing \<open>id\<close> writes
  \<open>name,id\<close>.
\<close>

theorem setColumnVisibility_insertion_order:
  "setColumnVisibility
     (parseTableState [(''table_columns'', ''name'')] (getQueryKeys None)
        [\<lparr> key = ''id'', filter_def = None, sortable = True, initialVisibility = True \<rparr>,
         \<lparr> key = ''name'', filter_def = None, sortable = True, initialVisibility = True \<rparr>,
         \<lparr> key = ''age'', filter_def = None, sortable = False, initialVisibility = False \<rparr>])
     (getQueryKeys None) [(''table_columns'', ''name'')] ''id'' True
   = Some [(''table_columns'', ''name,id'')]"
  by (simp add: setColumnVisibility_eq columnVisibility_parseTableState
      parseColumnVisibility_def columnVisibilityArrayFromParam_def isDefinedColumn_def
      getQueryKeys_def searchParams_get_def searchParams_delete_def Let_def)

text \<open>The first single-file table writes the same change in the order of the column
  definitions, and does so for every value it writes.\<close>

lemma createTable_setColumnVisibility_example:
  "createTable_setColumnVisibility
     [\<lparr> key = ''id'', filter_def = None, sortable = True, initialVisibility = True \<rparr>,
      \<lparr> key = ''name'', filter_def = None, sortable = True, initialVisibility = True \<rparr>,
      \<lparr> key = ''age'', filter_def = None, sortable = False, initialVisibility = False \<rparr>]
     [(''columns'', ''name'')] ''id'' True
   = Some [(''columns'', ''id,name'')]"
  by (simp add: createTable_setColumnVisibility_def getVisibleColumnsFromQueryString_def
      isDefinedColumn_def searchParams_get_def searchParams_delete_def Let_def)

lemma createTable_setColumnVisibility_registry_order:
  assumes "createTable_setColumnVisibility columns sp c v = Some sp'"
    and "searchParams_get sp' ''columns'' = Some value"
  shows "\<exists>P. value = join_with '','' (filter P (map key columns))"
  using assms
  by (auto simp: createTable_setColumnVisibility_def Let_def searchParams_get_set
      searchParams_get_delete split: if_splits)

lemma isDefinedColumn_iff: "isDefinedColumn cols k = (k \<in> key ` set cols)"
  by (auto simp: isDefinedColumn_def list_ex_iff)

lemma columnVisibilityArrayFromParam_eq:
  "columnVisibilityArrayFromParam param cols =
     filter (\<lambda>t. t \<in> key ` set cols)
       (split_on CHR '','' (case param of None \<Rightarrow> [] | Some v \<Rightarrow> v))"
  by (simp add: columnVisibilityArrayFromParam_def isDefinedColumn_iff [abs_def])

text \<open>A missing value has the one token \<open>""\<close>, which is kept only if a column has
  the empty key; otherwise the decoder returns the initially visible columns.\<close>

lemma columnVisibility_absent:
  assumes "searchParams_get sp (columnVisibility_key qk) = None" and "[] \<notin> key ` set cols"
  shows "columnVisibility (parseTableState sp qk cols) = map key (filter initialVisibility cols)"
  using assms
  by (simp add: columnVisibility_parseTableState parseColumnVisibility_def
      columnVisibilityArrayFromParam_eq initialVisibleColumns_def Let_def)

text \<open>
  Claim C6, amended. The decoder splits the value of the columns key at the commas (a
  missing value is decoded as the empty string, whose one token is the empty string),
  keeps exactly the tokens that are keys of defined columns, in the order given, and
  returns them; when no token is kept it returns the keys of the initially visible
  columns in the order of the column definitions, and so it does for a missing value
  whenever no column has the empty string as its key. The tokens are the pieces of the
  value between its commas.
\<close>

theorem columnVisibility_decoded:
  "columnVisibility (parseTableState sp qk cols) =
     (let tokens = split_on CHR '',''
                     (case searchParams_get sp (columnVisibility_key qk) of
                        None \<Rightarrow> [] | Some v \<Rightarrow> v);
          retained = filter (\<lambda>t. t \<in> key ` set cols) tokens
      in if retained = [] then map key (filter initialVisibility cols) else retained)
   \<and> join_with '','' (split_on CHR '','' v) = v
   \<and> list_all (\<lambda>t. CHR '','' \<notin> set t) (split_on CHR '','' v)
   \<and> (searchParams_get sp0 (columnVisibility_key qk) = None \<and> [] \<notin> key ` set cols
        \<longrightarrow> columnVisibility (parseTableState sp0 qk cols)
              = map key (filter initialVisibility cols))"
proof -
  have "list_all (\<lambda>t. CHR '','' \<notin> set t) (split_on CHR '','' v)"
    using split_on_no_sep [of _ "CHR '',''" v] by (auto simp: list_all_iff)
  then show ?thesis
    using columnVisibility_absent [of sp0 qk cols]
    by (simp add: columnVisibility_parseTableState [of sp] parseColumnVisibility_def
        columnVisibilityArrayFromParam_eq initialVisibleColumns_def Let_def
        join_with_split_on)
qed

theorem columnVisibility_decoded_witness:
  "searchParams_get [] (columnVisibility_key (getQueryKeys None)) = None
   \<and> [] \<notin> key ` set
       [\<lparr> key = ''id'', filter_def = None, sortable = True, initialVisibility = True \<rparr>,
        \<lparr> key = ''name'', filter_def = None, sortable = True, initialVisibility = True \<rparr>,
        \<lparr> key = ''age'', filter_def = None, sortable = False, initialVisibility = False \<rparr>]
   \<and> columnVisibility
       (parseTableState [] (getQueryKeys None)
          [\<lparr> key = ''id'', filter_def = None, sortable = True, initialVisibility = True \<rparr>,
           \<lparr> key = ''name'', filter_def = None, sortable = True, initialVisibility = True \<rparr>,
           \<lparr> key = ''age'', filter_def = None, sortable = False,
              initialVisibility = False \<rparr>])
     = [''id'', ''name'']
   \<and> columnVisibility
       (parseTableState [(''table_columns'', ''age,invalid_column,id'')] (getQueryKeys None)
          [\<lparr> key = ''id'', filter_def = None, sortable = True, initialVisibility = True \<rparr>,
           \<lparr> key = ''name'', filter_def = None, sortable = True, initialVisibility = True \<rparr>,
           \<lparr> key = ''age'', filter_def = None, sortable = False,
              initialVisibility = False \<rparr>])
     = [''age'', ''id'']"
  using columnVisibility_decoded [of
      "[(''table_columns'', ''age,invalid_column,id'')]" "getQueryKeys None"
      "[\<lparr> key = ''id'', filter_def = None, sortable = True, initialVisibility = True \<rparr>,
        \<lparr> key = ''name'', filter_def = None, sortable = True, initialVisibility = True \<rparr>,
        \<lparr> key = ''age'', filter_def = None, sortable = False, initialVisibility = False \<rparr>]"
      "''age,invalid_column,id''" "[]"]
  by (simp add: getQueryKeys_def searchParams_get_def)

text \<open>
  Claim C6 as stated fails for a missing value when a column has the empty string as
  its key: the one token of the empty string names that column and is kept, so the
  decoder returns it and not the initially visible columns.
\<close>

theorem columnVisibility_absent_with_empty_key:
  "columnVisibility
     (parseTableState [] (getQueryKeys None)
        [\<lparr> key = [], filter_def = None, sortable = True, initialVisibility = False \<rparr>,
         \<lparr> key = ''id'', filter_def = None, sortable = True, initialVisibility = True \<rparr>])
   = [[]]
   \<and> map key (filter initialVisibility
       [\<lparr> key = [], filter_def = None, sortable = True, initialVisibility = False \<rparr>,
        \<lparr> key = ''id'', filter_def = None, sortable = True, initialVisibility = True \<rparr>])
     = [''id'']"
  by (simp add: columnVisibility_parseTableState parseColumnVisibility_def
      columnVisibilityArrayFromParam_def isDefinedColumn_def
      getQueryKeys_def searchParams_get_def Let_def)

text \<open>
  Claim C5 as stated fails for column definitions without an initially visible column:
  the fallback is then the empty list.
\<close>

theorem columnVisibility_empty_without_default:
  "columnVisibility
     (parseTableState [] (getQueryKeys None)
        [\<lparr> key = ''id'', filter_def = None, sortable = True, initialVisibility = False \<rparr>])
   = []"
  by (simp add: columnVisibility_parseTableState parseColumnVisibility_def
      columnVisibilityArrayFromParam_def isDefinedColumn_def initialVisibleColumns_def
      getQueryKeys_def searchParams_get_def Let_def)

text \<open>
  Claim C5, amended. For column definitions with at least one initially visible column
  and every raw query map, the decoded list of visible columns is not empty; when no
  token of the columns value is kept, it is the list of the initially visible columns;
  and \<open>setColumnVisibility(c, false)\<close> pushes nothing when hiding \<open>c\<close> would leave
  no visible column.
\<close>

theorem columnVisibility_nonempty:
  assumes "list_ex initialVisibility cols"
  shows "columnVisibility (parseTableState sp qk cols) \<noteq> []
         \<and> (columnVisibilityArrayFromParam
                (searchParams_get sp (columnVisibility_key qk)) cols = []
              \<longrightarrow> columnVisibility (parseTableState sp qk cols) = initialVisibleColumns cols)
         \<and> (filter (\<lambda>col. col \<noteq> c) (columnVisibility (parseTableState sp qk cols)) = []
              \<longrightarrow> setColumnVisibility (parseTableState sp qk cols) qk sp c False = None)"
proof -
  have "initialVisibleColumns cols \<noteq> []"
    using assms by (auto simp: initialVisibleColumns_def list_ex_iff filter_empty_conv)
  then show ?thesis
    by (simp add: columnVisibility_parseTableState parseColumnVisibility_def
        setColumnVisibility_eq Let_def)
qed

theorem columnVisibility_nonempty_witness:
  "list_ex initialVisibility
     [\<lparr> key = ''id'', filter_def = None, sortable = True, initialVisibility = True \<rparr>]
   \<and> columnVisibilityArrayFromParam (searchParams_get [] (columnVisibility_key (getQueryKeys None)))
       [\<lparr> key = ''id'', filter_def = None, sortable = True, initialVisibility = True \<rparr>] = []
   \<and> columnVisibility
       (parseTableState [] (getQueryKeys None)
          [\<lparr> key = ''id'', filter_def = None, sortable = True, initialVisibility = True \<rparr>])
     = [''id'']
   \<and> filter (\<lambda>col. col \<noteq> ''id'')
       (columnVisibility
          (parseTableState [] (getQueryKeys None)
             [\<lparr> key = ''id'', filter_def = None, sortable = True,
                initialVisibility = True \<rparr>]))
     = []
   \<and> setColumnVisibility
       (parseTableState [] (getQueryKeys None)
          [\<lparr> key = ''id'', filter_def = None, sortable = True, initialVisibility = True \<rparr>])
       (getQueryKeys None) [] ''id'' False = None"
  using columnVisibility_nonempty [of
      "[\<lparr> key = ''id'', filter_def = None, sortable = True, initialVisibility = True \<rparr>]"
      "[]" "getQueryKeys None" "''id''"]
  by (simp add: columnVisibilityArrayFromParam_def isDefinedColumn_def
      initialVisibleColumns_def searchParams_get_def)

lemma count_list_filter: "P k \<Longrightarrow> count_list (filter P xs) k = count_list xs k"
  by (induction xs) auto

text \<open>
  Claim C10. Neither the writer nor the reader of the visible columns removes
  duplicates. Showing a column \<open>c\<close> that is already in the decoded list pushes the
  decoded list with \<open>c\<close> appended, joined by commas, so \<open>c\<close> is listed at least
  twice; and a defined key that occurs several times in the columns value occurs as
  often in the decoded list.
\<close>

theorem columnVisibility_not_deduplicated:
  "(c \<in> set (columnVisibility (parseTableState sp qk cols)) \<longrightarrow>
      (\<exists>sp'. setColumnVisibility (parseTableState sp qk cols) qk sp c True = Some sp'
         \<and> searchParams_get sp' (columnVisibility_key qk)
             = Some (join_with '','' (columnVisibility (parseTableState sp qk cols) @ [c]))
         \<and> 2 \<le> count_list (columnVisibility (parseTableState sp qk cols) @ [c]) c))
   \<and> (searchParams_get sp (columnVisibility_key qk) = Some v \<and> isDefinedColumn cols k
        \<and> 2 \<le> count_list (split_on CHR '','' v) k \<longrightarrow>
        count_list (columnVisibility (parseTableState sp qk cols)) k
          = count_list (split_on CHR '','' v) k)"
proof (intro conjI impI)
  assume c: "c \<in> set (columnVisibility (parseTableState sp qk cols))"
  then have "1 \<le> count_list (columnVisibility (parseTableState sp qk cols)) c"
    using count_list_0_iff [of "columnVisibility (parseTableState sp qk cols)" c] by simp
  then show "\<exists>sp'. setColumnVisibility (parseTableState sp qk cols) qk sp c True = Some sp'
         \<and> searchParams_get sp' (columnVisibility_key qk)
             = Some (join_with '','' (columnVisibility (parseTableState sp qk cols) @ [c]))
         \<and> 2 \<le> count_list (columnVisibility (parseTableState sp qk cols) @ [c]) c"
    by (simp add: setColumnVisibility_eq searchParams_get_set)
next
  assume a: "searchParams_get sp (columnVisibility_key qk) = Some v \<and> isDefinedColumn cols k
        \<and> 2 \<le> count_list (split_on CHR '','' v) k"
  then have cnt: "count_list (filter (isDefinedColumn cols) (split_on CHR '','' v)) k
                    = count_list (split_on CHR '','' v) k"
    by (simp add: count_list_filter)
  with a have "filter (isDefinedColumn cols) (split_on CHR '','' v) \<noteq> []"
    by auto
  with a cnt show "count_list (columnVisibility (parseTableState sp qk cols)) k
          = count_list (split_on CHR '','' v) k"
    by (simp add: columnVisibility_parseTableState parseColumnVisibility_def
        columnVisibilityArrayFromParam_def Let_def)
qed

theorem columnVisibility_not_deduplicated_witness:
  "''id'' \<in> set (columnVisibility
       (parseTableState [(''table_columns'', ''id,id'')] (getQueryKeys None)
          [\<lparr> key = ''id'', filter_def = None, sortable = True, initialVisibility = True \<rparr>]))
   \<and> searchParams_get [(''table_columns'', ''id,id'')] (columnVisibility_key (getQueryKeys None))
       = Some ''id,id''
   \<and> isDefinedColumn
       [\<lparr> key = ''id'', filter_def = None, sortable = True, initialVisibility = True \<rparr>] ''id''
   \<and> count_list (split_on CHR '','' ''id,id'') ''id'' = 2
   \<and> columnVisibility
       (parseTableState [(''table_columns'', ''id,id'')] (getQueryKeys None)
          [\<lparr> key = ''id'', filter_def = None, sortable = True, initialVisibility = True \<rparr>])
     = [''id'', ''id'']
   \<and> setColumnVisibility
       (parseTableState [(''table_columns'', ''id,id'')] (getQueryKeys None)
          [\<lparr> key = ''id'', filter_def = None, sortable = True, initialVisibility = True \<rparr>])
       (getQueryKeys None) [(''table_columns'', ''id,id'')] ''id'' True
     = Some [(''table_columns'', ''id,id,id'')]"
  using columnVisibility_not_deduplicated [of "''id''" "[(''table_columns'', ''id,id'')]"
      "getQueryKeys None"
      "[\<lparr> key = ''id'', filter_def = None, sortable = True, initialVisibility = True \<rparr>]"
      "''id,id''" "''id''"]
  by (simp add: setColumnVisibility_eq columnVisibility_parseTableState
      parseColumnVisibility_def columnVisibilityArrayFromParam_def isDefinedColumn_def
      getQueryKeys_def searchParams_get_def searchParams_delete_def Let_def)

text \<open>Writing a column that is already visible and decoding the pushed map gives the
  visible list with the column once more at its end.\<close>

lemma setColumnVisibility_then_decode:
  assumes "columnVisibilityArrayFromParam (searchParams_get sp (columnVisibility_key qk)) cols
             \<noteq> []"
    and "c \<in> set (columnVisibility (parseTableState sp qk cols))"
  shows "\<exists>sp'. setColumnVisibility (parseTableState sp qk cols) qk sp c True = Some sp'
           \<and> columnVisibility (parseTableState sp' qk cols)
               = columnVisibility (parseTableState sp qk cols) @ [c]"
proof -
  let ?vis = "columnVisibility (parseTableState sp qk cols)"
  let ?param = "searchParams_get sp (columnVisibility_key qk)"
  have vis: "?vis = filter (isDefinedColumn cols)
                      (split_on CHR '','' (case ?param of None \<Rightarrow> [] | Some s \<Rightarrow> s))"
    using assms(1)
    by (simp add: columnVisibility_parseTableState parseColumnVisibility_def
        columnVisibilityArrayFromParam_def Let_def)
  have nosep: "list_all (\<lambda>t. CHR '','' \<notin> set t) (?vis @ [c])"
    using assms(2) split_on_no_sep [of _ "CHR '',''"]
    unfolding vis by (auto simp: list_all_iff)
  have defd: "filter (isDefinedColumn cols) (?vis @ [c]) = ?vis @ [c]"
    using assms(2) unfolding vis by auto
  have "split_on CHR '','' (join_with '','' (?vis @ [c])) = ?vis @ [c]"
    using split_on_join_with [of "?vis @ [c]" "CHR '',''"] nosep by simp
  then have "parseColumnVisibility (Some (join_with '','' (?vis @ [c]))) cols = ?vis @ [c]"
    using defd
    by (simp add: parseColumnVisibility_def columnVisibilityArrayFromParam_def Let_def)
  then show ?thesis
    by (simp add: setColumnVisibility_eq searchParams_get_set
        columnVisibility_parseTableState [of "searchParams_set _ _ _"])
qed

subsection \<open>Decoded filters\<close>

lemma parseFilters_step_eq:
  "parseFilters_step sp qk col acc =
     (case decodedFilter sp qk col of None \<Rightarrow> acc | Some v \<Rightarrow> acc(key col \<mapsto> v))"
  by (simp add: parseFilters_step_def decodedFilter_def split: option.splits sum.splits)

lemma fold_parseFilters_step_other:
  "k \<notin> key ` set cols \<Longrightarrow> fold (parseFilters_step sp qk) cols acc k = acc k"
  by (induction cols arbitrary: acc) (auto simp: parseFilters_step_eq split: option.splits)

lemma fold_parseFilters_step_distinct:
  assumes "distinct (map key cols)" and "col \<in> set cols"
  shows "fold (parseFilters_step sp qk) cols acc (key col) =
           (case decodedFilter sp qk col of None \<Rightarrow> acc (key col) | Some v \<Rightarrow> Some v)"
  using assms
proof (induction cols arbitrary: acc)
  case Nil
  then show ?case by simp
next
  case (Cons a cols)
  let ?acc' = "parseFilters_step sp qk a acc"
  have unfold: "fold (parseFilters_step sp qk) (a # cols) acc (key col)
                  = fold (parseFilters_step sp qk) cols ?acc' (key col)"
    by simp
  show ?case
  proof (cases "col = a")
    case True
    then have "key col \<notin> key ` set cols" using Cons.prems by auto
    then have "fold (parseFilters_step sp qk) cols ?acc' (key col) = ?acc' (key col)"
      by (rule fold_parseFilters_step_other)
    also have "\<dots> = (case decodedFilter sp qk col of
                         None \<Rightarrow> acc (key col) | Some v \<Rightarrow> Some v)"
      using True by (simp add: parseFilters_step_eq split: option.splits)
    finally show ?thesis using unfold by simp
  next
    case False
    then have in_cols: "col \<in> set cols" and d: "distinct (map key cols)"
      using Cons.prems by auto
    then have ne: "key a \<noteq> key col" using Cons.prems by auto
    have "fold (parseFilters_step sp qk) cols ?acc' (key col)
            = (case decodedFilter sp qk col of
                 None \<Rightarrow> ?acc' (key col) | Some v \<Rightarrow> Some v)"
      by (rule Cons.IH [OF d in_cols])
    also have "?acc' (key col) = acc (key col)"
      using ne by (simp add: parseFilters_step_eq split: option.splits)
    finally show ?thesis using unfold by simp
  qed
qed

lemma fold_parseFilters_step_no_null:
  "acc k \<noteq> Some JNull \<Longrightarrow> fold (parseFilters_step sp qk) cols acc k \<noteq> Some JNull"
proof (induction cols arbitrary: acc)
  case Nil
  then show ?case by simp
next
  case (Cons a cols)
  have "parseFilters_step sp qk a acc k \<noteq> Some JNull"
    using Cons.prems
    by (auto simp: parseFilters_step_def split: option.splits sum.splits)
  then show ?case using Cons.IH by simp
qed

text \<open>
  Claim C7, amended. For column definitions whose keys are unique and do not include
  \<open>__proto__\<close>, every raw query map and every column with a filter definition, the
  decoded filters hold the column's key (as an own property of the decoded object)
  exactly when the column's parameter is present
  and its decoder returns a value other than \<open>null\<close>, and then they hold that value; a
  missing parameter, a decoder that returns \<open>null\<close> and a decoder that throws leave the
  key out. No entry is \<open>null\<close>. The entry of a column is the same in every such
  registry that holds the column, so a decoder that throws for another column does not
  change it.
\<close>

theorem parseFilters_entry:
  assumes "distinct (map key cols)" and "''__proto__'' \<notin> key ` set cols"
    and "col \<in> set cols" and "filter_def col = Some f"
  shows "filter_state (parseTableState sp qk cols) (key col) =
           (case searchParams_get sp (filterPrefix qk @ key col) of
              None \<Rightarrow> None
            | Some enc \<Rightarrow>
                (case decodeFromUrl f enc of
                   Inl e \<Rightarrow> None
                 | Inr v \<Rightarrow> if v = JNull then None else Some v))
         \<and> filter_state (parseTableState sp qk cols) k \<noteq> Some JNull
         \<and> (distinct (map key cols') \<and> ''__proto__'' \<notin> key ` set cols' \<and> col \<in> set cols'
              \<longrightarrow> filter_state (parseTableState sp qk cols') (key col)
                    = filter_state (parseTableState sp qk cols) (key col))"
proof -
  have p: "key col \<noteq> ''__proto__''"
    using assms(2,3) by (metis imageI)
  have e: "\<And>cs. distinct (map key cs) \<Longrightarrow> col \<in> set cs \<Longrightarrow>
             parseFilters sp qk cs (key col) = decodedFilter sp qk col"
    using fold_parseFilters_step_distinct [of _ col sp qk Map.empty]
    by (simp add: parseFilters_def split: option.splits)
  have n: "parseFilters sp qk cols k \<noteq> Some JNull"
    unfolding parseFilters_def by (rule fold_parseFilters_step_no_null) simp
  have df: "decodedFilter sp qk col =
           (case searchParams_get sp (filterPrefix qk @ key col) of
              None \<Rightarrow> None
            | Some enc \<Rightarrow>
                (case decodeFromUrl f enc of
                   Inl e \<Rightarrow> None
                 | Inr v \<Rightarrow> if v = JNull then None else Some v))"
    using p assms(4) by (simp add: decodedFilter_def split: option.splits sum.splits)
  show ?thesis
    using e [OF assms(1,3)] e [of cols'] n
    unfolding df by (simp add: filter_state_parseTableState)
qed

text \<open>
  Claim C7 as stated fails in two ways. Two columns that share a key write the same
  entry: the key is present although the second column's parameter decodes to
  \<open>null\<close>. And a column with the key \<open>__proto__\<close> gets no entry although its
  parameter is present and decodes to a value.
\<close>

theorem parseFilters_shared_key_and_proto_key:
  "filter_state
     (parseTableState [(''table_filter_a'', ''x'')] (getQueryKeys None)
        [\<lparr> key = ''a'',
           filter_def = Some \<lparr> encodeForUrl = (\<lambda>v. Inl NotModelled),
                              decodeFromUrl = (\<lambda>s. Inr (JStr s)) \<rparr>,
           sortable = True, initialVisibility = True \<rparr>,
         \<lparr> key = ''a'',
           filter_def = Some \<lparr> encodeForUrl = (\<lambda>v. Inl NotModelled),
                              decodeFromUrl = (\<lambda>s. Inr JNull) \<rparr>,
           sortable = True, initialVisibility = True \<rparr>])
     ''a''
   = Some (JStr ''x'')
   \<and> filter_state
       (parseTableState [(''table_filter___proto__'', ''x'')] (getQueryKeys None)
          [\<lparr> key = ''__proto__'',
             filter_def = Some \<lparr> encodeForUrl = (\<lambda>v. Inl NotModelled),
                                decodeFromUrl = (\<lambda>s. Inr (JStr s)) \<rparr>,
             sortable = True, initialVisibility = True \<rparr>])
       ''__proto__''
     = None"
  by (simp add: filter_state_parseTableState parseFilters_def parseFilters_step_def
      getQueryKeys_def searchParams_get_def)

text \<open>Whether or not the keys are unique, an entry of the decoded filters is the
  decoded value of a column with that key, and a column with another key than
  \<open>__proto__\<close> whose parameter decodes to a value gives its key an entry.\<close>

lemma parseFilters_entry_origin:
  "parseFilters sp qk cols k = Some v \<Longrightarrow>
     \<exists>col \<in> set cols. key col = k \<and> decodedFilter sp qk col = Some v"
proof -
  have "\<And>acc. fold (parseFilters_step sp qk) cols acc k = Some v \<Longrightarrow>
          acc k = Some v \<or> (\<exists>col \<in> set cols. key col = k \<and> decodedFilter sp qk col = Some v)"
  proof (induction cols)
    case Nil
    then show ?case by simp
  next
    case (Cons a cols)
    from Cons.IH [of "parseFilters_step sp qk a acc"] Cons.prems
    have "parseFilters_step sp qk a acc k = Some v
            \<or> (\<exists>col \<in> set cols. key col = k \<and> decodedFilter sp qk col = Some v)"
      by simp
    then show ?case
      by (auto simp: parseFilters_step_eq split: option.splits if_splits)
  qed
  from this [of Map.empty] show "parseFilters sp qk cols k = Some v \<Longrightarrow>
     \<exists>col \<in> set cols. key col = k \<and> decodedFilter sp qk col = Some v"
    by (simp add: parseFilters_def)
qed

lemma fold_parseFilters_step_keeps:
  "acc k \<noteq> None \<Longrightarrow> fold (parseFilters_step sp qk) cols acc k \<noteq> None"
proof (induction cols arbitrary: acc)
  case Nil
  then show ?case by simp
next
  case (Cons a cols)
  have "parseFilters_step sp qk a acc k \<noteq> None"
    using Cons.prems by (auto simp: parseFilters_step_eq split: option.splits)
  then show ?case using Cons.IH by simp
qed

lemma parseFilters_entry_present:
  assumes "col \<in> set cols" and "decodedFilter sp qk col \<noteq> None"
  shows "parseFilters sp qk cols (key col) \<noteq> None"
proof -
  have "\<And>acc. fold (parseFilters_step sp qk) cols acc (key col) \<noteq> None"
    using assms(1)
  proof (induction cols)
    case Nil
    then show ?case by simp
  next
    case (Cons a cols)
    show ?case
    proof (cases "col = a")
      case True
      then have "parseFilters_step sp qk a acc (key col) \<noteq> None"
        using assms(2) by (auto simp: parseFilters_step_eq split: option.splits)
      then show ?thesis
        using fold_parseFilters_step_keeps by simp
    next
      case False
      then show ?thesis using Cons by simp
    qed
  qed
  then show ?thesis by (simp add: parseFilters_def)
qed

theorem parseFilters_entry_witness:
  "distinct (map key
     [\<lparr> key = ''name'',
        filter_def = Some \<lparr> encodeForUrl = (\<lambda>v. Inl (Thrown ''unused'')),
                           decodeFromUrl = (\<lambda>s. Inr (JStr s)) \<rparr>,
        sortable = True, initialVisibility = True \<rparr>,
      \<lparr> key = ''age'',
        filter_def = Some \<lparr> encodeForUrl = (\<lambda>v. Inl (Thrown ''unused'')),
                           decodeFromUrl = (\<lambda>s. Inl (Thrown ''malformed'')) \<rparr>,
        sortable = False, initialVisibility = False \<rparr>])
   \<and> ''__proto__'' \<notin> key ` set
       [\<lparr> key = ''name'',
          filter_def = Some \<lparr> encodeForUrl = (\<lambda>v. Inl (Thrown ''unused'')),
                             decodeFromUrl = (\<lambda>s. Inr (JStr s)) \<rparr>,
          sortable = True, initialVisibility = True \<rparr>,
        \<lparr> key = ''age'',
          filter_def = Some \<lparr> encodeForUrl = (\<lambda>v. Inl (Thrown ''unused'')),
                             decodeFromUrl = (\<lambda>s. Inl (Thrown ''malformed'')) \<rparr>,
          sortable = False, initialVisibility = False \<rparr>]
   \<and> filter_state
       (parseTableState [(''table_filter_name'', ''yamada''), (''table_filter_age'', ''x'')]
          (getQueryKeys None)
          [\<lparr> key = ''name'',
             filter_def = Some \<lparr> encodeForUrl = (\<lambda>v. Inl (Thrown ''unused'')),
                                decodeFromUrl = (\<lambda>s. Inr (JStr s)) \<rparr>,
             sortable = True, initialVisibility = True \<rparr>,
           \<lparr> key = ''age'',
             filter_def = Some \<lparr> encodeForUrl = (\<lambda>v. Inl (Thrown ''unused'')),
                                decodeFromUrl = (\<lambda>s. Inl (Thrown ''malformed'')) \<rparr>,
             sortable = False, initialVisibility = False \<rparr>])
       ''name''
     = Some (JStr ''yamada'')
   \<and> filter_state
       (parseTableState [(''table_filter_name'', ''yamada''), (''table_filter_age'', ''x'')]
          (getQueryKeys None)
          [\<lparr> key = ''name'',
             filter_def = Some \<lparr> encodeForUrl = (\<lambda>v. Inl (Thrown ''unused'')),
                                decodeFromUrl = (\<lambda>s. Inr (JStr s)) \<rparr>,
             sortable = True, initialVisibility = True \<rparr>])
       ''name''
     = Some (JStr ''yamada'')"
  using parseFilters_entry [of
      "[\<lparr> key = ''name'',
          filter_def = Some \<lparr> encodeForUrl = (\<lambda>v. Inl (Thrown ''unused'')),
                             decodeFromUrl = (\<lambda>s. Inr (JStr s)) \<rparr>,
          sortable = True, initialVisibility = True \<rparr>,
        \<lparr> key = ''age'',
          filter_def = Some \<lparr> encodeForUrl = (\<lambda>v. Inl (Thrown ''unused'')),
                             decodeFromUrl = (\<lambda>s. Inl (Thrown ''malformed'')) \<rparr>,
          sortable = False, initialVisibility = False \<rparr>]"
      "\<lparr> key = ''name'',
          filter_def = Some \<lparr> encodeForUrl = (\<lambda>v. Inl (Thrown ''unused'')),
                             decodeFromUrl = (\<lambda>s. Inr (JStr s)) \<rparr>,
          sortable = True, initialVisibility = True \<rparr>"
      "\<lparr> encodeForUrl = (\<lambda>v. Inl (Thrown ''unused'')),
         decodeFromUrl = (\<lambda>s. Inr (JStr s)) \<rparr>"
      "[(''table_filter_name'', ''yamada''), (''table_filter_age'', ''x'')]"
      "getQueryKeys None" "''age''"
      "[\<lparr> key = ''name'',
          filter_def = Some \<lparr> encodeForUrl = (\<lambda>v. Inl (Thrown ''unused'')),
                             decodeFromUrl = (\<lambda>s. Inr (JStr s)) \<rparr>,
          sortable = True, initialVisibility = True \<rparr>]"]
  by (simp add: getQueryKeys_def searchParams_get_def)

lemma parseFilters_example_throwing_decoder:
  "filter_state
     (parseTableState [(''table_filter_name'', ''yamada''), (''table_filter_age'', ''x'')]
        (getQueryKeys None)
        [\<lparr> key = ''name'',
           filter_def = Some \<lparr> encodeForUrl = (\<lambda>v. Inl (Thrown ''unused'')),
                              decodeFromUrl = (\<lambda>s. Inr (JStr s)) \<rparr>,
           sortable = True, initialVisibility = True \<rparr>,
         \<lparr> key = ''age'',
           filter_def = Some \<lparr> encodeForUrl = (\<lambda>v. Inl (Thrown ''unused'')),
                              decodeFromUrl = (\<lambda>s. Inl (Thrown ''malformed'')) \<rparr>,
           sortable = False, initialVisibility = False \<rparr>])
   = [''name'' \<mapsto> JStr ''yamada'']"
  by (simp add: filter_state_parseTableState parseFilters_def parseFilters_step_def
      getQueryKeys_def searchParams_get_def)

subsection \<open>The filter setter\<close>


lemma setFilter_undefined_column:
  assumes "filterValue \<noteq> JNull" and "find (\<lambda>col. key col = columnKey) cols = None"
  shows "setFilter cols qk sp columnKey filterValue = Inr None"
  using assms by (simp add: setFilter_def)



subsection \<open>The schema codec\<close>

text \<open>
  Claim C8, amended. For a codec made from a schema, and every value \<open>x\<close> that the
  schema accepts and returns unchanged and whose JSON text parses back to \<open>x\<close>, decoding
  the encoding of \<open>x\<close> gives \<open>x\<close>. The decoder never throws; it returns \<open>null\<close>
  when the text does not parse and when the parsed value fails the schema.
\<close>

theorem createFilterEncoderDecoder_roundtrip:
  "(v_parse x = Inr x \<and> stringify json x = Inr s \<and> parse json s = Inr x \<longrightarrow>
      encodeForUrl (createFilterEncoderDecoder json v_parse) x = Inr s
      \<and> decodeFromUrl (createFilterEncoderDecoder json v_parse) s = Inr x)
   \<and> \<not> isl (decodeFromUrl (createFilterEncoderDecoder json v_parse) encoded)
   \<and> (isl (parse json encoded) \<longrightarrow>
        decodeFromUrl (createFilterEncoderDecoder json v_parse) encoded = Inr JNull)
   \<and> (parse json encoded' = Inr parsed \<and> isl (v_parse parsed) \<longrightarrow>
        decodeFromUrl (createFilterEncoderDecoder json v_parse) encoded' = Inr JNull)"
  by (auto simp: createFilterEncoderDecoder_def split: sum.splits)

theorem createFilterEncoderDecoder_roundtrip_witness:
  "statusFilterSchema (JStr ''active'') = Inr (JStr ''active'')
   \<and> stringify JSON_literals (JStr ''active'') = Inr (CHR 0x22 # ''active'' @ [CHR 0x22])
   \<and> parse JSON_literals (CHR 0x22 # ''active'' @ [CHR 0x22]) = Inr (JStr ''active'')
   \<and> encodeForUrl (createFilterEncoderDecoder JSON_literals statusFilterSchema)
       (JStr ''active'') = Inr (CHR 0x22 # ''active'' @ [CHR 0x22])
   \<and> decodeFromUrl (createFilterEncoderDecoder JSON_literals statusFilterSchema)
       (CHR 0x22 # ''active'' @ [CHR 0x22]) = Inr (JStr ''active'')
   \<and> isl (parse JSON_literals ''invalid-json'')
   \<and> decodeFromUrl (createFilterEncoderDecoder JSON_literals statusFilterSchema)
       ''invalid-json'' = Inr JNull
   \<and> parse JSON_literals (CHR 0x22 # ''pending'' @ [CHR 0x22]) = Inr (JStr ''pending'')
   \<and> isl (statusFilterSchema (JStr ''pending''))
   \<and> decodeFromUrl (createFilterEncoderDecoder JSON_literals statusFilterSchema)
       (CHR 0x22 # ''pending'' @ [CHR 0x22]) = Inr JNull"
  using createFilterEncoderDecoder_roundtrip [of statusFilterSchema "JStr ''active''"
      JSON_literals "CHR 0x22 # ''active'' @ [CHR 0x22]" "''invalid-json''"
      "CHR 0x22 # ''pending'' @ [CHR 0x22]" "JStr ''pending''"]
  by (simp add: statusFilterSchema_def JSON_literals_def plainString_def isWhiteSpace_def)

text \<open>
  Claim C8 as stated fails for a value that the schema accepts and JSON cannot write:
  \<open>v.number()\<close> accepts \<open>Infinity\<close>, its JSON text is \<open>null\<close>, and the decoder
  returns \<open>null\<close> for that text.
\<close>

theorem createFilterEncoderDecoder_infinity:
  "v_number (JNum PosInfinity) = Inr (JNum PosInfinity)
   \<and> encodeForUrl (createFilterEncoderDecoder JSON_literals v_number) (JNum PosInfinity)
       = Inr ''null''
   \<and> decodeFromUrl (createFilterEncoderDecoder JSON_literals v_number) ''null'' = Inr JNull"
  by (simp add: createFilterEncoderDecoder_def v_number_def JSON_literals_def)

end
